theory Spec2Isabelle
  imports Main
begin

section \<open>The chat relay of server.js\<close>

text \<open>
  The development embeds the handler \<^verbatim>\<open>app.post('/api/chat')\<close> and the function
  \<^verbatim>\<open>saveHistory\<close> of \<^verbatim>\<open>server.js\<close>. Both copies of the file in the repository
  have the same text for these two, apart from how a session id is minted.

  What the JavaScript platform provides (\<^verbatim>\<open>JSON.parse\<close>, \<^verbatim>\<open>JSON.stringify\<close>, the
  conversion of a value to a string, the zero test of a double, the MD5 digest, the
  message text of a built-in error) is a parameter of the model, collected in the
  record \<open>platform\<close>. The general theorems hold for every platform. Closed theorems
  are stated on \<open>node\<close>, a platform defined below for a fragment of JSON.
\<close>

subsection \<open>JSON values and the platform\<close>

text \<open>
  A value that \<^verbatim>\<open>JSON.parse\<close> can return. The type of numbers is left open: they are
  IEEE doubles in JavaScript, and the relay only asks whether one is zero. An object
  keeps its members in order; a key bound twice has the value bound last, as
  \<^verbatim>\<open>JSON.parse\<close> has it. The value \<^verbatim>\<open>undefined\<close> is \<open>None\<close> of an option.
\<close>

datatype 'n json =
    JNull
  | JBool bool
  | JNumber 'n
  | JString string
  | JArray "'n json list"
  | JObject "(string \<times> 'n json) list"

datatype js_error = FetchError string | SyntaxError | TypeError

record 'n platform =
  JSON_parse :: "string \<Rightarrow> 'n json option"
  JSON_stringify :: "'n json \<Rightarrow> string"
  JSON_stringify_2 :: "'n json \<Rightarrow> string"
  ToString :: "'n json \<Rightarrow> string"
  is_zero :: "'n \<Rightarrow> bool"
  md5_hex :: "string \<Rightarrow> string"
  builtin_message :: "js_error \<Rightarrow> string"

text \<open>
  Reading a property of a parsed value: an own member of an object, and \<^verbatim>\<open>undefined\<close>
  on a boolean, a number, a string or an array (none of the names the relay reads,
  \<^verbatim>\<open>message\<close>, \<^verbatim>\<open>response\<close>, \<^verbatim>\<open>text\<close>, \<^verbatim>\<open>output\<close>, \<^verbatim>\<open>type\<close>, \<^verbatim>\<open>content\<close>, is
  on a prototype). On \<^verbatim>\<open>null\<close> the read throws a \<^verbatim>\<open>TypeError\<close>: every reader
  below has a case for \<^verbatim>\<open>null\<close> before its first read.
\<close>

fun get_prop :: "'n json \<Rightarrow> string \<Rightarrow> 'n json option" where
  "get_prop (JObject kvs) k = map_of (rev kvs) k"
| "get_prop v k = None"

text \<open>Truthiness, and the first truthy operand of a chain of \<^verbatim>\<open>||\<close> (none: \<open>None\<close>).\<close>

fun truthy :: "'n platform \<Rightarrow> 'n json option \<Rightarrow> bool" where
  "truthy P None = False"
| "truthy P (Some JNull) = False"
| "truthy P (Some (JBool b)) = b"
| "truthy P (Some (JNumber n)) = (\<not> is_zero P n)"
| "truthy P (Some (JString s)) = (s \<noteq> [])"
| "truthy P (Some (JArray xs)) = True"
| "truthy P (Some (JObject kvs)) = True"

fun first_truthy :: "'n platform \<Rightarrow> 'n json option list \<Rightarrow> 'n json option" where
  "first_truthy P [] = None"
| "first_truthy P (x # xs) = (if truthy P x then x else first_truthy P xs)"

subsection \<open>Strings\<close>

text \<open>
  A string is a list of code units below 256. \<^verbatim>\<open>trim\<close> removes white space and line
  terminators at both ends; \<^verbatim>\<open>split('\n')\<close> always returns at least one piece;
  \<^verbatim>\<open>includes\<close> looks for a contiguous occurrence; a template literal prints a
  status code in decimal.
\<close>

definition js_space :: "char \<Rightarrow> bool" where
  "js_space c = (c \<in> set [CHR 0x09, CHR 0x0A, CHR 0x0B, CHR 0x0C, CHR 0x0D, CHR 0x20, CHR 0xA0])"

definition trim :: "string \<Rightarrow> string" where
  "trim s = rev (dropWhile js_space (rev (dropWhile js_space s)))"

fun split_nl :: "string \<Rightarrow> string list" where
  "split_nl [] = [[]]"
| "split_nl (c # cs) =
     (if c = CHR 0x0A then [] # split_nl cs
      else (case split_nl cs of [] \<Rightarrow> [[c]] | l # ls \<Rightarrow> (c # l) # ls))"

fun str_includes :: "string \<Rightarrow> string \<Rightarrow> bool" where
  "str_includes [] sub = (sub = [])"
| "str_includes (c # cs) sub = (take (length sub) (c # cs) = sub \<or> str_includes cs sub)"

fun join :: "string \<Rightarrow> string list \<Rightarrow> string" where
  "join sep [] = []"
| "join sep [x] = x"
| "join sep (x # y # ys) = x @ sep @ join sep (y # ys)"

fun show_nat :: "nat \<Rightarrow> string" where
  "show_nat n =
     (if n < 10 then [''0123456789'' ! n]
      else show_nat (n div 10) @ [''0123456789'' ! (n mod 10)])"

declare show_nat.simps [simp del]

text \<open>An element of an array under \<^verbatim>\<open>join\<close>: a string is itself, \<^verbatim>\<open>null\<close> is empty.\<close>

definition join_text :: "'n platform \<Rightarrow> 'n json \<Rightarrow> string" where
  "join_text P v = (case v of JString s \<Rightarrow> s | JNull \<Rightarrow> [] | _ \<Rightarrow> ToString P v)"

subsection \<open>The request, the upstream and what the handler does\<close>

text \<open>
  Of the request, the handler reads the members \<^verbatim>\<open>message\<close> and \<^verbatim>\<open>sessionId\<close> of
  the parsed body and the address that \<^verbatim>\<open>getClientIP\<close> returns. The clock is read
  for \<^verbatim>\<open>startTime\<close> and twice in \<^verbatim>\<open>createSessionId\<close>.
\<close>

record 'n request =
  message :: "'n json option"
  sessionId :: "'n json option"
  clientIP :: string
  startTime :: string
  hash_now :: nat
  id_now :: nat

text \<open>
  \<^verbatim>\<open>fetch\<close> either throws, with a message, or returns a reply: its status, its
  \<^verbatim>\<open>content-type\<close> header if any, and the body as the texts of its chunks, each
  already decoded. The body is taken to arrive whole.
\<close>

datatype upstream = FetchThrows string | Reply nat "string option" "string list"

text \<open>One call of \<^verbatim>\<open>saveHistory(userMessage, botResponse, timestamp, sessionId)\<close>.\<close>

record 'n save_call =
  userMessage :: string
  botResponse :: string
  timestamp :: string
  session :: "'n json"

text \<open>
  What one run of the handler leaves behind: the response to the caller (status,
  content type, the fragments given to \<^verbatim>\<open>res.write\<close> in order, the payload given to
  \<^verbatim>\<open>res.json\<close>, whether it was ended), the bodies posted upstream, the calls of
  \<^verbatim>\<open>saveHistory\<close>, and the error the handler's promise was rejected with, if any.
\<close>

record 'n outcome =
  statusCode :: nat
  contentType :: "string option"
  chunked :: bool
  written :: "string list"
  json_body :: "'n json option"
  ended :: bool
  fetched :: "'n json list"
  saved :: "'n save_call list"
  uncaught :: "js_error option"

definition fresh :: "'n outcome" where
  "fresh = \<lparr>statusCode = 200, contentType = None, chunked = False, written = [],
     json_body = None, ended = False, fetched = [], saved = [], uncaught = None\<rparr>"

text \<open>
  \<^verbatim>\<open>res.status(code).json(payload)\<close>: the content type is set only when the
  response has none yet.
\<close>

definition res_json :: "nat \<Rightarrow> 'n json \<Rightarrow> 'n outcome \<Rightarrow> 'n outcome" where
  "res_json code payload r =
     r\<lparr>statusCode := code,
       contentType := (case contentType r of
                         None \<Rightarrow> Some ''application/json; charset=utf-8''
                       | Some ct \<Rightarrow> Some ct),
       json_body := Some payload, ended := True\<rparr>"

definition message_of :: "'n platform \<Rightarrow> js_error \<Rightarrow> string" where
  "message_of P e = (case e of FetchError m \<Rightarrow> m | _ \<Rightarrow> builtin_message P e)"

text \<open>The \<^verbatim>\<open>catch\<close> of the handler.\<close>

definition catch_error :: "'n platform \<Rightarrow> js_error \<Rightarrow> 'n outcome \<Rightarrow> 'n outcome" where
  "catch_error P e r =
     res_json 500
       (JObject [(''error'', JString ''Internal Server Error''),
                 (''details'', JString (message_of P e))]) r"

definition createSessionId :: "'n platform \<Rightarrow> 'n request \<Rightarrow> string" where
  "createSessionId P req =
     ''sg_'' @ take 8 (md5_hex P (clientIP req @ show_nat (hash_now req)))
       @ ''_'' @ show_nat (id_now req)"

definition ok :: "nat \<Rightarrow> bool" where
  "ok st = (200 \<le> st \<and> st \<le> 299)"

subsection \<open>The whole-JSON branch\<close>

text \<open>
  The callback of \<^verbatim>\<open>data.map\<close>: a string is returned as it is; otherwise the first
  truthy of \<^verbatim>\<open>item.message\<close>, \<^verbatim>\<open>item.response\<close>, \<^verbatim>\<open>item.text\<close>, and the
  serialised item when there is none. The chain has no \<^verbatim>\<open>output\<close>.
\<close>

definition reduce_item :: "'n platform \<Rightarrow> 'n json \<Rightarrow> js_error + 'n json" where
  "reduce_item P item =
     (case item of
        JString s \<Rightarrow> Inr (JString s)
      | JNull \<Rightarrow> Inl TypeError
      | _ \<Rightarrow>
          (case first_truthy P [get_prop item ''message'', get_prop item ''response'', get_prop item ''text''] of
             Some v \<Rightarrow> Inr v
           | None \<Rightarrow> Inr (JString (JSON_stringify P item))))"

fun map_items :: "'n platform \<Rightarrow> 'n json list \<Rightarrow> js_error + 'n json list" where
  "map_items P [] = Inr []"
| "map_items P (item # items) =
     (case reduce_item P item of
        Inl e \<Rightarrow> Inl e
      | Inr v \<Rightarrow> (case map_items P items of Inl e \<Rightarrow> Inl e | Inr vs \<Rightarrow> Inr (v # vs)))"

text \<open>
  The value assigned to \<^verbatim>\<open>botResponse\<close> by the chain of \<^verbatim>\<open>if\<close>s, or the error
  thrown on the way. The separator of \<^verbatim>\<open>join\<close> is two line feeds.
\<close>

definition extract_text :: "'n platform \<Rightarrow> 'n json \<Rightarrow> js_error + 'n json" where
  "extract_text P data =
     (case data of
        JString s \<Rightarrow> Inr (JString s)
      | JNull \<Rightarrow> Inl TypeError
      | _ \<Rightarrow>
          (case first_truthy P [get_prop data ''message'', get_prop data ''response'',
                               get_prop data ''text'', get_prop data ''output''] of
             Some v \<Rightarrow> Inr v
           | None \<Rightarrow>
               (case data of
                  JArray (item # items) \<Rightarrow>
                    (case map_items P (item # items) of
                       Inl e \<Rightarrow> Inl e
                     | Inr vs \<Rightarrow> Inr (JString (join [CHR 0x0A, CHR 0x0A] (map (join_text P) vs))))
                | _ \<Rightarrow> Inr (JString (JSON_stringify P data)))))"

text \<open>
  \<^verbatim>\<open>response.json()\<close> parses the whole body. \<^verbatim>\<open>res.write\<close> takes a string; on
  any other value it throws a \<^verbatim>\<open>TypeError\<close> before anything is sent, after the
  content type has been set.
\<close>

definition json_branch ::
  "'n platform \<Rightarrow> 'n save_call \<Rightarrow> string \<Rightarrow> 'n outcome \<Rightarrow> 'n outcome" where
  "json_branch P call body r =
     (case JSON_parse P body of
        None \<Rightarrow> catch_error P SyntaxError r
      | Some data \<Rightarrow>
          (case extract_text P data of
             Inl e \<Rightarrow> catch_error P e r
           | Inr (JString s) \<Rightarrow>
               r\<lparr>contentType := Some ''text/plain; charset=utf-8'',
                 written := written r @ [s], ended := True,
                 saved := saved r @ [call\<lparr>botResponse := s\<rparr>]\<rparr>
           | Inr v \<Rightarrow>
               catch_error P TypeError (r\<lparr>contentType := Some ''text/plain; charset=utf-8''\<rparr>)))"

subsection \<open>The streaming branch\<close>

text \<open>
  The state of the loop: the fragments written to the caller so far and the
  accumulator \<^verbatim>\<open>fullResponse\<close>. \<^verbatim>\<open>emit\<close> is \<^verbatim>\<open>res.write(c); fullResponse += c\<close>:
  when \<^verbatim>\<open>res.write\<close> throws, neither has happened.
\<close>

type_synonym sstate = "string list \<times> string"

definition emit :: "'n json option \<Rightarrow> sstate \<Rightarrow> js_error + sstate" where
  "emit c st =
     (case c of
        Some (JString s) \<Rightarrow> Inr (fst st @ [s], snd st @ s)
      | _ \<Rightarrow> Inl TypeError)"

text \<open>The body of the \<^verbatim>\<open>try\<close> after \<^verbatim>\<open>JSON.parse\<close> has returned.\<close>

definition try_line :: "'n platform \<Rightarrow> 'n json \<Rightarrow> sstate \<Rightarrow> js_error + sstate" where
  "try_line P json st =
     (case json of
        JNull \<Rightarrow> Inl TypeError
      | _ \<Rightarrow>
          if get_prop json ''type'' = Some (JString ''item'') \<and> truthy P (get_prop json ''content'')
          then emit (get_prop json ''content'') st
          else if truthy P (get_prop json ''message'') \<or> truthy P (get_prop json ''text'')
                  \<or> truthy P (get_prop json ''response'')
          then emit (first_truthy P [get_prop json ''message'', get_prop json ''text'',
                                     get_prop json ''response'']) st
          else Inr st)"

text \<open>
  One line, or the rest of the buffer at the end of the stream: the source has the
  same text at both places. The \<^verbatim>\<open>catch\<close> writes the raw line.
\<close>

definition handle_line :: "'n platform \<Rightarrow> string \<Rightarrow> sstate \<Rightarrow> sstate" where
  "handle_line P line st =
     (if trim line = [] then st
      else
        (case JSON_parse P line of
           None \<Rightarrow> (fst st @ [line], snd st @ line)
         | Some json \<Rightarrow>
             (case try_line P json st of
                Inl e \<Rightarrow> (fst st @ [line], snd st @ line)
              | Inr st' \<Rightarrow> st')))"

fun handle_lines :: "'n platform \<Rightarrow> string list \<Rightarrow> sstate \<Rightarrow> sstate" where
  "handle_lines P [] st = st"
| "handle_lines P (line # lines) st = handle_lines P lines (handle_line P line st)"

text \<open>The loop over the chunks, with the carry-over \<^verbatim>\<open>buffer\<close>.\<close>

fun stream_chunks :: "'n platform \<Rightarrow> string list \<Rightarrow> string \<Rightarrow> sstate \<Rightarrow> string \<times> sstate" where
  "stream_chunks P [] buffer st = (buffer, st)"
| "stream_chunks P (text # chunks) buffer st =
     (let lines = split_nl (buffer @ text)
      in stream_chunks P chunks (last lines) (handle_lines P (butlast lines) st))"

definition stream_branch ::
  "'n platform \<Rightarrow> 'n save_call \<Rightarrow> string list \<Rightarrow> 'n outcome \<Rightarrow> 'n outcome" where
  "stream_branch P call chunks r =
     (case stream_chunks P chunks [] (written r, []) of
        (buffer, st) \<Rightarrow>
          (case handle_line P buffer st of
             (out, fullResponse) \<Rightarrow>
               r\<lparr>contentType := Some ''text/plain; charset=utf-8'', chunked := True,
                 written := out, ended := True,
                 saved := saved r @ [call\<lparr>botResponse := fullResponse\<rparr>]\<rparr>))"

subsection \<open>The handler\<close>

definition error_branch :: "'n save_call \<Rightarrow> nat \<Rightarrow> 'n outcome \<Rightarrow> 'n outcome" where
  "error_branch call st r =
     r\<lparr>contentType := Some ''text/plain; charset=utf-8'',
       written := written r @ [''Sorry, the webhook returned an error ('' @ show_nat st
                                 @ ''). Please try again later.''],
       ended := True,
       saved := saved r @ [call\<lparr>botResponse := ''Error: '' @ show_nat st\<rparr>]\<rparr>"

text \<open>
  \<^verbatim>\<open>message.substring\<close> is called before the \<^verbatim>\<open>try\<close>: a truthy message that is
  not a string rejects the handler's promise with nothing sent.
\<close>

definition api_chat :: "'n platform \<Rightarrow> 'n request \<Rightarrow> upstream \<Rightarrow> 'n outcome" where
  "api_chat P req up =
     (if \<not> truthy P (message req)
      then res_json 400 (JObject [(''error'', JString ''Message is required'')]) fresh
      else
        (case message req of
           Some (JString m) \<Rightarrow>
             (let uniqueId =
                    (case first_truthy P [sessionId req] of
                       Some v \<Rightarrow> v
                     | None \<Rightarrow> JString (createSessionId P req));
                  call = \<lparr>userMessage = m, botResponse = [], timestamp = startTime req,
                            session = uniqueId\<rparr>;
                  r = fresh\<lparr>fetched := [JObject [(''message'', JString m),
                                                  (''sessionId'', uniqueId),
                                                  (''timestamp'', JString (startTime req))]]\<rparr>
              in (case up of
                    FetchThrows msg \<Rightarrow> catch_error P (FetchError msg) r
                  | Reply st ctype chunks \<Rightarrow>
                      if \<not> ok st then error_branch call st r
                      else if (case ctype of
                                 None \<Rightarrow> False
                               | Some ct \<Rightarrow> ct \<noteq> [] \<and> str_includes ct ''application/json'')
                      then json_branch P call (concat chunks) r
                      else stream_branch P call chunks r))
         | _ \<Rightarrow> fresh\<lparr>uncaught := Some TypeError\<rparr>))"

subsection \<open>The history log\<close>

text \<open>
  \<^verbatim>\<open>saveHistory\<close> reads the file (\<open>None\<close>: the read failed, as it does when the file
  is absent), parses what it read if that is not empty, pushes the record and hands
  the serialised array to \<^verbatim>\<open>fs.writeFile\<close>. \<^verbatim>\<open>history.push\<close> is a function only
  when \<^verbatim>\<open>history\<close> is an array; on any other value the call throws inside the
  callback of \<^verbatim>\<open>fs.readFile\<close> and nothing is written.
\<close>

datatype save_result = Wrote string | Threw js_error

definition entry :: "'n save_call \<Rightarrow> string \<Rightarrow> 'n json" where
  "entry call savedAt =
     JObject [(''timestamp'', JString (timestamp call)),
              (''sessionId'', session call),
              (''userMessage'', JString (userMessage call)),
              (''botResponse'', JString (botResponse call)),
              (''savedAt'', JString savedAt)]"

definition saveHistory ::
  "'n platform \<Rightarrow> string \<Rightarrow> string option \<Rightarrow> 'n save_call \<Rightarrow> save_result" where
  "saveHistory P savedAt file call =
     (let history =
            (case file of
               None \<Rightarrow> JArray []
             | Some data \<Rightarrow>
                 if data = [] then JArray []
                 else (case JSON_parse P data of None \<Rightarrow> JArray [] | Some h \<Rightarrow> h))
      in (case history of
            JArray xs \<Rightarrow> Wrote (JSON_stringify_2 P (JArray (xs @ [entry call savedAt])))
          | _ \<Rightarrow> Threw TypeError))"

subsection \<open>The extraction rule in the words of the specification\<close>

text \<open>
  The rule as the specification states it, to be compared with \<open>extract_text\<close>: the
  payload if it is a string; else the field \<^verbatim>\<open>message\<close>, \<^verbatim>\<open>response\<close>, \<^verbatim>\<open>text\<close> or
  \<^verbatim>\<open>output\<close> it has, in this order; else, for an array, every element reduced by the
  same rule and the results joined with a blank line; else the serialised payload.
\<close>

fun spec_reduce :: "'n platform \<Rightarrow> 'n json \<Rightarrow> 'n json" where
  "spec_reduce P (JString s) = JString s"
| "spec_reduce P (JObject kvs) =
     (case get_prop (JObject kvs) ''message'' of
        Some v \<Rightarrow> v
      | None \<Rightarrow>
          (case get_prop (JObject kvs) ''response'' of
             Some v \<Rightarrow> v
           | None \<Rightarrow>
               (case get_prop (JObject kvs) ''text'' of
                  Some v \<Rightarrow> v
                | None \<Rightarrow>
                    (case get_prop (JObject kvs) ''output'' of
                       Some v \<Rightarrow> v
                     | None \<Rightarrow> JString (JSON_stringify P (JObject kvs))))))"
| "spec_reduce P (JArray items) =
     JString (join [CHR 0x0A, CHR 0x0A] (map (\<lambda>i. join_text P (spec_reduce P i)) items))"
| "spec_reduce P JNull = JString (JSON_stringify P JNull)"
| "spec_reduce P (JBool b) = JString (JSON_stringify P (JBool b))"
| "spec_reduce P (JNumber n) = JString (JSON_stringify P (JNumber n))"

text \<open>
  The rule for a line of a stream as the specification states it: the same rule, and
  an object with \<^verbatim>\<open>type == "item"\<close> and a \<^verbatim>\<open>content\<close> field yields \<^verbatim>\<open>content\<close>.
\<close>

definition spec_line :: "'n platform \<Rightarrow> 'n json \<Rightarrow> 'n json" where
  "spec_line P json =
     (case (get_prop json ''type'', get_prop json ''content'') of
        (Some (JString ty), Some c) \<Rightarrow> if ty = ''item'' then c else spec_reduce P json
      | _ \<Rightarrow> spec_reduce P json)"

text \<open>
  The payloads on which the code and the rule of the specification are compared: a
  consulted field is absent or a non-empty string; an element of an array is a
  string, a boolean, a number or an object without \<^verbatim>\<open>output\<close>; an array is not
  empty; the payload is not \<^verbatim>\<open>null\<close>.
\<close>

fun plain :: "'n json option \<Rightarrow> bool" where
  "plain None = True"
| "plain (Some (JString s)) = (s \<noteq> [])"
| "plain (Some v) = False"

fun simple_item :: "'n json \<Rightarrow> bool" where
  "simple_item JNull = False"
| "simple_item (JArray xs) = False"
| "simple_item (JObject kvs) =
     (plain (get_prop (JObject kvs) ''message'') \<and> plain (get_prop (JObject kvs) ''response'')
      \<and> plain (get_prop (JObject kvs) ''text'') \<and> get_prop (JObject kvs) ''output'' = None)"
| "simple_item v = True"

fun simple_payload :: "'n json \<Rightarrow> bool" where
  "simple_payload JNull = False"
| "simple_payload (JArray xs) = (xs \<noteq> [] \<and> list_all simple_item xs)"
| "simple_payload (JObject kvs) =
     (plain (get_prop (JObject kvs) ''message'') \<and> plain (get_prop (JObject kvs) ''response'')
      \<and> plain (get_prop (JObject kvs) ''text'') \<and> plain (get_prop (JObject kvs) ''output''))"
| "simple_payload v = True"

subsection \<open>A platform for closed statements\<close>

text \<open>
  \<open>node\<close> fixes the platform on a fragment of JSON: numbers are integers written
  without fraction and exponent, and a string has no \<^verbatim>\<open>\u\<close> escape. On a text of
  the fragment \<open>node_parse\<close> returns what \<^verbatim>\<open>JSON.parse\<close> returns, and on a text that
  is not JSON it returns \<open>None\<close>. The reader runs on fuel, one unit for every value
  and every member it enters; the length of the text is enough.
\<close>

definition json_ws :: "char \<Rightarrow> bool" where
  "json_ws c = (c \<in> set [CHR 0x20, CHR 0x09, CHR 0x0A, CHR 0x0D])"

definition is_digit :: "char \<Rightarrow> bool" where
  "is_digit c = (c \<in> set ''0123456789'')"

definition unescape :: "char \<Rightarrow> char option" where
  "unescape e =
     (if e = CHR 0x22 \<or> e = CHR 0x5C \<or> e = CHR ''/'' then Some e
      else if e = CHR ''b'' then Some (CHR 0x08)
      else if e = CHR ''f'' then Some (CHR 0x0C)
      else if e = CHR ''n'' then Some (CHR 0x0A)
      else if e = CHR ''r'' then Some (CHR 0x0D)
      else if e = CHR ''t'' then Some (CHR 0x09)
      else None)"

text \<open>The characters of a string after its opening quote, and what follows it.\<close>

fun read_string :: "string \<Rightarrow> (string \<times> string) option" where
  "read_string [] = None"
| "read_string [c] = (if c = CHR 0x22 then Some ([], []) else None)"
| "read_string (c # e # cs) =
     (if c = CHR 0x22 then Some ([], e # cs)
      else if c = CHR 0x5C then
        (case unescape e of
           None \<Rightarrow> None
         | Some ch \<Rightarrow>
             (case read_string cs of None \<Rightarrow> None | Some (s, r) \<Rightarrow> Some (ch # s, r)))
      else if (of_char c :: nat) < 32 then None
      else (case read_string (e # cs) of None \<Rightarrow> None | Some (s, r) \<Rightarrow> Some (c # s, r)))"

definition digits_value :: "string \<Rightarrow> int" where
  "digits_value ds = foldl (\<lambda>a d. 10 * a + (of_char d - 48)) 0 ds"

definition read_number :: "string \<Rightarrow> (int json \<times> string) option" where
  "read_number cs =
     (let neg = (cs \<noteq> [] \<and> hd cs = CHR ''-'');
          body = (if neg then tl cs else cs);
          ds = takeWhile is_digit body;
          r = dropWhile is_digit body
      in if ds = [] \<or> (hd ds = CHR ''0'' \<and> length ds > 1) then None
         else if r \<noteq> [] \<and> hd r \<in> set ''.eE'' then None
         else Some (JNumber (if neg then - digits_value ds else digits_value ds), r))"

fun read_value :: "nat \<Rightarrow> string \<Rightarrow> (int json \<times> string) option"
  and read_elems :: "nat \<Rightarrow> string \<Rightarrow> (int json list \<times> string) option"
  and read_members :: "nat \<Rightarrow> string \<Rightarrow> ((string \<times> int json) list \<times> string) option" where
  "read_value 0 cs = None"
| "read_value (Suc f) cs =
     (case dropWhile json_ws cs of
        [] \<Rightarrow> None
      | c # r \<Rightarrow>
          if c = CHR 0x22 then
            (case read_string r of None \<Rightarrow> None | Some (s, r') \<Rightarrow> Some (JString s, r'))
          else if c = CHR ''['' then
            (case dropWhile json_ws r of
               [] \<Rightarrow> None
             | d # r' \<Rightarrow>
                 if d = CHR '']'' then Some (JArray [], r')
                 else (case read_elems f (d # r') of
                         None \<Rightarrow> None
                       | Some (vs, r'') \<Rightarrow> Some (JArray vs, r'')))
          else if c = CHR ''{'' then
            (case dropWhile json_ws r of
               [] \<Rightarrow> None
             | d # r' \<Rightarrow>
                 if d = CHR ''}'' then Some (JObject [], r')
                 else (case read_members f (d # r') of
                         None \<Rightarrow> None
                       | Some (kvs, r'') \<Rightarrow> Some (JObject kvs, r'')))
          else if take 4 (c # r) = ''null'' then Some (JNull, drop 4 (c # r))
          else if take 4 (c # r) = ''true'' then Some (JBool True, drop 4 (c # r))
          else if take 5 (c # r) = ''false'' then Some (JBool False, drop 5 (c # r))
          else read_number (c # r))"
| "read_elems 0 cs = None"
| "read_elems (Suc f) cs =
     (case read_value f cs of
        None \<Rightarrow> None
      | Some (v, r) \<Rightarrow>
          (case dropWhile json_ws r of
             [] \<Rightarrow> None
           | c # r' \<Rightarrow>
               if c = CHR '','' then
                 (case read_elems f r' of None \<Rightarrow> None | Some (vs, r'') \<Rightarrow> Some (v # vs, r''))
               else if c = CHR '']'' then Some ([v], r')
               else None))"
| "read_members 0 cs = None"
| "read_members (Suc f) cs =
     (case dropWhile json_ws cs of
        [] \<Rightarrow> None
      | q # r \<Rightarrow>
          if q \<noteq> CHR 0x22 then None
          else
            (case read_string r of
               None \<Rightarrow> None
             | Some (k, r1) \<Rightarrow>
                 (case dropWhile json_ws r1 of
                    [] \<Rightarrow> None
                  | c # r2 \<Rightarrow>
                      if c \<noteq> CHR '':'' then None
                      else
                        (case read_value f r2 of
                           None \<Rightarrow> None
                         | Some (v, r3) \<Rightarrow>
                             (case dropWhile json_ws r3 of
                                [] \<Rightarrow> None
                              | d # r4 \<Rightarrow>
                                  if d = CHR '','' then
                                    (case read_members f r4 of
                                       None \<Rightarrow> None
                                     | Some (kvs, r5) \<Rightarrow> Some ((k, v) # kvs, r5))
                                  else if d = CHR ''}'' then Some ([(k, v)], r4)
                                  else None)))))"

definition node_parse :: "string \<Rightarrow> int json option" where
  "node_parse s =
     (case read_value (Suc (length s)) s of
        None \<Rightarrow> None
      | Some (v, r) \<Rightarrow> if dropWhile json_ws r = [] then Some v else None)"

text \<open>Serialising: compact, and indented by two spaces.\<close>

definition show_int :: "int \<Rightarrow> string" where
  "show_int i = (if i < 0 then CHR ''-'' # show_nat (nat (- i)) else show_nat (nat i))"

definition escape :: "char \<Rightarrow> string" where
  "escape c =
     (if c = CHR 0x22 then [CHR 0x5C, CHR 0x22]
      else if c = CHR 0x5C then [CHR 0x5C, CHR 0x5C]
      else if c = CHR 0x08 then [CHR 0x5C, CHR ''b'']
      else if c = CHR 0x0C then [CHR 0x5C, CHR ''f'']
      else if c = CHR 0x0A then [CHR 0x5C, CHR ''n'']
      else if c = CHR 0x0D then [CHR 0x5C, CHR ''r'']
      else if c = CHR 0x09 then [CHR 0x5C, CHR ''t'']
      else if (of_char c :: nat) < 32 then
        [CHR 0x5C, CHR ''u'', CHR ''0'', CHR ''0'',
         ''0123456789abcdef'' ! (of_char c div 16), ''0123456789abcdef'' ! (of_char c mod 16)]
      else [c])"

definition quote :: "string \<Rightarrow> string" where
  "quote s = CHR 0x22 # concat (map escape s) @ [CHR 0x22]"

fun node_stringify :: "int json \<Rightarrow> string" where
  "node_stringify JNull = ''null''"
| "node_stringify (JBool b) = (if b then ''true'' else ''false'')"
| "node_stringify (JNumber n) = show_int n"
| "node_stringify (JString s) = quote s"
| "node_stringify (JArray xs) = ''['' @ join '','' (map node_stringify xs) @ '']''"
| "node_stringify (JObject kvs) =
     ''{'' @ join '','' (map (\<lambda>kv. quote (fst kv) @ '':'' @ node_stringify (snd kv)) kvs) @ ''}''"

fun node_pretty :: "nat \<Rightarrow> int json \<Rightarrow> string" where
  "node_pretty ind JNull = ''null''"
| "node_pretty ind (JBool b) = (if b then ''true'' else ''false'')"
| "node_pretty ind (JNumber n) = show_int n"
| "node_pretty ind (JString s) = quote s"
| "node_pretty ind (JArray xs) =
     (if xs = [] then ''[]''
      else ''['' @ [CHR 0x0A]
        @ join ('','' @ [CHR 0x0A])
            (map (\<lambda>x. replicate (ind + 2) CHR '' '' @ node_pretty (ind + 2) x) xs)
        @ [CHR 0x0A] @ replicate ind CHR '' '' @ '']'')"
| "node_pretty ind (JObject kvs) =
     (if kvs = [] then ''{}''
      else ''{'' @ [CHR 0x0A]
        @ join ('','' @ [CHR 0x0A])
            (map (\<lambda>kv. replicate (ind + 2) CHR '' '' @ quote (fst kv) @ '': ''
                        @ node_pretty (ind + 2) (snd kv)) kvs)
        @ [CHR 0x0A] @ replicate ind CHR '' '' @ ''}'')"

fun node_ToString :: "int json \<Rightarrow> string" where
  "node_ToString JNull = ''null''"
| "node_ToString (JBool b) = (if b then ''true'' else ''false'')"
| "node_ToString (JNumber n) = show_int n"
| "node_ToString (JString s) = s"
| "node_ToString (JArray xs) =
     join '','' (map (\<lambda>x. if x = JNull then [] else node_ToString x) xs)"
| "node_ToString (JObject kvs) = ''[object Object]''"

text \<open>
  No statement below reads the digest or the message of a built-in error on
  \<open>node\<close>: the two are fixed texts there.
\<close>

definition node :: "int platform" where
  "node = \<lparr>JSON_parse = node_parse, JSON_stringify = node_stringify,
     JSON_stringify_2 = node_pretty 0, ToString = node_ToString,
     is_zero = (\<lambda>n. n = 0), md5_hex = (\<lambda>s. replicate 32 CHR ''0''),
     builtin_message = (\<lambda>e. case e of SyntaxError \<Rightarrow> ''SyntaxError''
                                 | TypeError \<Rightarrow> ''TypeError'' | FetchError m \<Rightarrow> m)\<rparr>"

definition browser :: "int request" where
  "browser = \<lparr>message = Some (JString ''hello''), sessionId = Some (JString ''s1''),
     clientIP = ''127.0.0.1'', startTime = ''2024-01-01T00:00:00.000Z'',
     hash_now = 1704067200000, id_now = 1704067200000\<rparr>"

definition exchange :: "int save_call" where
  "exchange = \<lparr>userMessage = ''hello'', botResponse = ''hi'',
     timestamp = ''2024-01-01T00:00:00.000Z'', session = JString ''s1''\<rparr>"

section \<open>Properties\<close>

subsection \<open>Strings and lines\<close>

lemma str_includes_prefix: "str_includes (s @ b) s"
proof (cases "s @ b")
  case Nil
  then show ?thesis by simp
next
  case (Cons c cs)
  have "take (length s) (s @ b) = s" by simp
  with Cons show ?thesis by simp
qed

lemma str_includes_append: "str_includes (a @ s @ b) s"
  by (induction a) (auto simp: str_includes_prefix)

lemma str_includes_nonempty: "str_includes ct sub \<Longrightarrow> sub \<noteq> [] \<Longrightarrow> ct \<noteq> []"
  by (cases ct) auto

lemma split_nl_nonempty: "split_nl s \<noteq> []"
  by (induction s) (auto split: list.splits)

lemma split_nl_append:
  "split_nl (a @ b) = butlast (split_nl a) @ split_nl (last (split_nl a) @ b)"
proof (induction a)
  case Nil
  show ?case by simp
next
  case (Cons c a)
  show ?case
  proof (cases "split_nl a")
    case Nil
    with split_nl_nonempty show ?thesis by blast
  next
    case (Cons l ls)
    with Cons.IH split_nl_nonempty [of "l @ b"] show ?thesis
      by (cases ls) (auto split: list.splits)
  qed
qed

lemma last_split_nl_no_nl: "CHR 0x0A \<notin> set (last (split_nl s))"
  by (induction s) (auto split: list.splits simp: split_nl_nonempty)

lemma split_nl_no_nl: "CHR 0x0A \<notin> set s \<Longrightarrow> split_nl s = [s]"
  by (induction s) (auto split: list.splits)

subsection \<open>Facts about the platform \<open>node\<close> and the request \<open>browser\<close>\<close>

lemma browser_message: "message browser = Some (JString ''hello'')"
  by (simp add: browser_def)

lemma ok_200: "ok 200"
  by (simp add: ok_def)

lemma parse_text_items: \<open>JSON_parse node ''[{"text":"a"},{"text":"b"}]''
    = Some (JArray [JObject [(''text'', JString ''a'')], JObject [(''text'', JString ''b'')]])\<close>
  by code_simp

lemma parse_response_hi: \<open>JSON_parse node ''{"response": "hi"}''
    = Some (JObject [(''response'', JString ''hi'')])\<close>
  by code_simp

lemma parse_empty_array: "JSON_parse node ''[]'' = Some (JArray [])"
  by code_simp

lemma parse_item_foo: \<open>JSON_parse node ''{"type":"item","content":"foo"}''
    = Some (JObject [(''type'', JString ''item''), (''content'', JString ''foo'')])\<close>
  by code_simp

lemma parse_item_bar: \<open>JSON_parse node ''{"type":"item","content":"bar"}''
    = Some (JObject [(''type'', JString ''item''), (''content'', JString ''bar'')])\<close>
  by code_simp

lemma trim_item_foo: \<open>trim ''{"type":"item","content":"foo"}'' \<noteq> []\<close>
  by (simp add: trim_def js_space_def)

lemma trim_item_bar: \<open>trim ''{"type":"item","content":"bar"}'' \<noteq> []\<close>
  by (simp add: trim_def js_space_def)

lemma parse_output_line: \<open>JSON_parse node ''{"output":"x"}''
    = Some (JObject [(''output'', JString ''x'')])\<close>
  by code_simp

lemma parse_plain_text: "JSON_parse node ''plain text'' = None"
  by code_simp

lemma parse_begin: \<open>JSON_parse node ''{"type":"begin"}''
    = Some (JObject [(''type'', JString ''begin'')])\<close>
  by code_simp

lemma parse_blank: "JSON_parse node ''  '' = None"
  by code_simp

lemma parse_hi: "JSON_parse node ''hi'' = None"
  by code_simp

subsection \<open>The whole-JSON branch\<close>

text \<open>
  On a simple payload the code computes what the rule of the specification computes,
  and the result is a string.
\<close>

lemma plain_truthy: "plain x \<Longrightarrow> truthy P x = (x \<noteq> None)"
  by (induction x rule: plain.induct) auto

lemma plain_string: "plain (Some v) \<Longrightarrow> \<exists>s. v = JString s"
  by (cases v) auto

lemma reduce_simple_item:
  "simple_item item \<Longrightarrow> reduce_item P item = Inr (spec_reduce P item)"
  by (cases item) (auto simp: reduce_item_def plain_truthy split: option.splits)

lemma map_simple_items:
  "list_all simple_item items \<Longrightarrow> map_items P items = Inr (map (spec_reduce P) items)"
  by (induction items) (auto simp: reduce_simple_item)

lemma extract_simple:
  assumes "simple_payload data"
  shows "extract_text P data = Inr (spec_reduce P data)"
proof (cases data)
  case (JArray xs)
  with assms obtain y ys where xs: "xs = y # ys" by (cases xs) auto
  from assms JArray have "map_items P xs = Inr (map (spec_reduce P) xs)"
    by (simp add: map_simple_items)
  with JArray xs show ?thesis
    by (simp add: extract_text_def comp_def del: map_items.simps)
next
  case (JObject kvs)
  with assms show ?thesis
    by (auto simp: extract_text_def plain_truthy split: option.splits)
qed (use assms in \<open>auto simp: extract_text_def\<close>)

lemma spec_reduce_simple:
  "simple_payload data \<Longrightarrow> \<exists>s. spec_reduce P data = JString s"
  by (cases data) (auto split: option.splits dest: plain_string)

text \<open>
  C3, amended. The upstream declares a JSON content type and its body parses to a
  payload that is not \<^verbatim>\<open>null\<close>, in which every \<^verbatim>\<open>message\<close>, \<^verbatim>\<open>response\<close>, \<^verbatim>\<open>text\<close>
  and \<^verbatim>\<open>output\<close> field is absent or a non-empty string, and which, when it is an
  array, is not empty and has for elements strings, booleans, numbers and objects
  without an \<^verbatim>\<open>output\<close> field. Then the caller is sent, as one fragment, the string
  that the specification's rule selects (payload is a string; \<^verbatim>\<open>message\<close>;
  \<^verbatim>\<open>response\<close>; \<^verbatim>\<open>text\<close>; \<^verbatim>\<open>output\<close>; array elements reduced and joined with a blank
  line; the serialised payload), and the same string is logged.
\<close>

theorem json_reply_rule:
  assumes "message req = Some (JString m)" and "m \<noteq> []" and "ok st"
    and "str_includes ct ''application/json''"
    and "JSON_parse P (concat chunks) = Some data" and "simple_payload data"
  shows "\<exists>s c. spec_reduce P data = JString s
    \<and> written (api_chat P req (Reply st (Some ct) chunks)) = [s]
    \<and> saved (api_chat P req (Reply st (Some ct) chunks)) = [c]
    \<and> botResponse c = s \<and> userMessage c = m
    \<and> statusCode (api_chat P req (Reply st (Some ct) chunks)) = 200
    \<and> contentType (api_chat P req (Reply st (Some ct) chunks)) = Some ''text/plain; charset=utf-8''
    \<and> ended (api_chat P req (Reply st (Some ct) chunks))
    \<and> length (fetched (api_chat P req (Reply st (Some ct) chunks))) = 1"
proof -
  from assms(6) obtain s where s: "spec_reduce P data = JString s"
    using spec_reduce_simple by blast
  have e: "extract_text P data = Inr (JString s)"
    using extract_simple [OF assms(6)] s by simp
  have ne: "ct \<noteq> []"
    using str_includes_nonempty [OF assms(4)] by simp
  show ?thesis
    using assms(1-5) s e ne
    by (simp add: api_chat_def Let_def json_branch_def fresh_def)
qed

theorem json_reply_rule_witness:
  \<open>written (api_chat node browser
      (Reply 200 (Some ''application/json'') [''[{"text":"a"},{"text":"b"}]'']))
     = [''a'' @ [CHR 0x0A, CHR 0x0A] @ ''b'']
   \<and> written (api_chat node browser
      (Reply 200 (Some ''application/json'') [''{"response": "hi"}''])) = [''hi'']\<close>
proof -
  have ct: "str_includes ''application/json'' ''application/json''" by simp
  have ne: "''hello'' \<noteq> []" by simp
  have a: \<open>JSON_parse node (concat [''[{"text":"a"},{"text":"b"}]''])
      = Some (JArray [JObject [(''text'', JString ''a'')], JObject [(''text'', JString ''b'')]])\<close>
    using parse_text_items by simp
  have sa: "simple_payload (JArray [JObject [(''text'', JString ''a'')],
      JObject [(''text'', JString ''b'')]] :: int json)" by simp
  have b: \<open>JSON_parse node (concat [''{"response": "hi"}''])
      = Some (JObject [(''response'', JString ''hi'')])\<close>
    using parse_response_hi by simp
  have sb: "simple_payload (JObject [(''response'', JString ''hi'')] :: int json)" by simp
  from json_reply_rule [OF browser_message ne ok_200 ct a sa]
       json_reply_rule [OF browser_message ne ok_200 ct b sb]
  show ?thesis by (auto simp: join_text_def)
qed

text \<open>
  The claim as stated fails on the empty array: the rule of the specification joins
  no elements and yields the empty string; the code asks for \<^verbatim>\<open>data.length > 0\<close>
  and sends the serialised payload.
\<close>

theorem json_reply_rule_counterexample:
  "JSON_parse node ''[]'' = Some (JArray [])
   \<and> spec_reduce node (JArray []) = JString []
   \<and> written (api_chat node browser (Reply 200 (Some ''application/json'') [''[]'']))
       = [''[]'']
   \<and> written (api_chat node browser (Reply 200 (Some ''application/json'') [''[]'']))
       \<noteq> [[]]"
proof -
  have a: "extract_text node (JArray []) = Inr (JString ''[]'')"
    by (simp add: extract_text_def node_def)
  have b: "written (api_chat node browser (Reply 200 (Some ''application/json'') [''[]'']))
       = [''[]'']"
    using browser_message ok_200 parse_empty_array a
    by (simp add: api_chat_def Let_def json_branch_def fresh_def)
  show ?thesis using parse_empty_array b by simp
qed

text \<open>
  An element that has only \<^verbatim>\<open>output\<close> is serialised by the code, where the rule of
  the specification yields its \<^verbatim>\<open>output\<close>.
\<close>

lemma array_item_output_serialised:
  \<open>spec_reduce node (JArray [JObject [(''output'', JString ''x'')]]) = JString ''x''
   \<and> extract_text node (JArray [JObject [(''output'', JString ''x'')]])
       = Inr (JString ''{"output":"x"}'')\<close>
  by (simp add: extract_text_def reduce_item_def join_text_def node_def quote_def escape_def)

subsection \<open>The streaming branch\<close>

lemma try_line_plain:
  assumes "json \<noteq> JNull"
    and "plain (get_prop json ''content'')" and "plain (get_prop json ''message'')"
    and "plain (get_prop json ''text'')" and "plain (get_prop json ''response'')"
  shows "try_line P json (out, full) =
    Inr (case (if get_prop json ''type'' = Some (JString ''item'') \<and> get_prop json ''content'' \<noteq> None
           then get_prop json ''content''
           else (case get_prop json ''message'' of
                   Some v \<Rightarrow> Some v
                 | None \<Rightarrow> (case get_prop json ''text'' of
                              Some v \<Rightarrow> Some v
                            | None \<Rightarrow> get_prop json ''response'')))
     of Some (JString s) \<Rightarrow> (out @ [s], full @ s) | _ \<Rightarrow> (out, full))"
proof -
  have nn: "try_line P json (out, full) =
     (if get_prop json ''type'' = Some (JString ''item'') \<and> truthy P (get_prop json ''content'')
      then emit (get_prop json ''content'') (out, full)
      else if truthy P (get_prop json ''message'') \<or> truthy P (get_prop json ''text'')
              \<or> truthy P (get_prop json ''response'')
      then emit (first_truthy P [get_prop json ''message'', get_prop json ''text'',
                                 get_prop json ''response'']) (out, full)
      else Inr (out, full))"
    using assms(1) by (cases json) (simp_all add: try_line_def)
  show ?thesis
    unfolding nn using assms(2-5)
    by (auto simp: plain_truthy emit_def dest!: plain_string split: option.splits)
qed

text \<open>
  C1, amended. A complete line that is not blank and parses as JSON to a value that
  is not \<^verbatim>\<open>null\<close>, whose \<^verbatim>\<open>content\<close>, \<^verbatim>\<open>message\<close>, \<^verbatim>\<open>text\<close> and \<^verbatim>\<open>response\<close> fields
  are each absent or a non-empty string: the relay forwards \<^verbatim>\<open>content\<close> when
  \<^verbatim>\<open>type\<close> is \<^verbatim>\<open>"item"\<close> and \<^verbatim>\<open>content\<close> is present; otherwise the first present of
  \<^verbatim>\<open>message\<close>, \<^verbatim>\<open>text\<close>, \<^verbatim>\<open>response\<close>, in this order; otherwise nothing. What is
  forwarded is added to the accumulator. The cases of the whole-JSON branch for a
  string payload, for \<^verbatim>\<open>output\<close>, for an array and for the serialised payload are
  not applied to a line.
\<close>

theorem stream_line_rule:
  assumes "trim line \<noteq> []" and "JSON_parse P line = Some json" and "json \<noteq> JNull"
    and "plain (get_prop json ''content'')" and "plain (get_prop json ''message'')"
    and "plain (get_prop json ''text'')" and "plain (get_prop json ''response'')"
  shows "handle_line P line (out, full) =
    (case (if get_prop json ''type'' = Some (JString ''item'') \<and> get_prop json ''content'' \<noteq> None
           then get_prop json ''content''
           else (case get_prop json ''message'' of
                   Some v \<Rightarrow> Some v
                 | None \<Rightarrow> (case get_prop json ''text'' of
                              Some v \<Rightarrow> Some v
                            | None \<Rightarrow> get_prop json ''response'')))
     of Some (JString s) \<Rightarrow> (out @ [s], full @ s) | _ \<Rightarrow> (out, full))"
  using assms(1,2) try_line_plain [OF assms(3-7), of P out full]
  by (simp add: handle_line_def)

theorem stream_line_rule_witness:
  \<open>handle_line node ''{"type":"item","content":"foo"}'' ([], []) = ([''foo''], ''foo'')\<close>
proof -
  let ?j = "JObject [(''type'', JString ''item''), (''content'', JString ''foo'')] :: int json"
  have n: "?j \<noteq> JNull" by simp
  have c: "plain (get_prop ?j ''content'')" by simp
  have m: "plain (get_prop ?j ''message'')" by simp
  have t: "plain (get_prop ?j ''text'')" by simp
  have r: "plain (get_prop ?j ''response'')" by simp
  from stream_line_rule [OF trim_item_foo parse_item_foo n c m t r, of "[]" "[]"]
  show ?thesis by simp
qed

text \<open>
  The claim as stated fails on a line that has only \<^verbatim>\<open>output\<close>: the whole-JSON
  branch and the rule of the specification yield its \<^verbatim>\<open>output\<close>; the streaming
  branch forwards nothing.
\<close>

theorem stream_line_rule_counterexample:
  \<open>JSON_parse node ''{"output":"x"}'' = Some (JObject [(''output'', JString ''x'')])
   \<and> extract_text node (JObject [(''output'', JString ''x'')]) = Inr (JString ''x'')
   \<and> spec_line node (JObject [(''output'', JString ''x'')]) = JString ''x''
   \<and> fst (handle_line node ''{"output":"x"}'' ([], [])) \<noteq> [''x'']\<close>
proof -
  have t: \<open>trim ''{"output":"x"}'' \<noteq> []\<close> by (simp add: trim_def js_space_def)
  have h: \<open>handle_line node ''{"output":"x"}'' ([], []) = ([], [])\<close>
    using t by (simp add: handle_line_def parse_output_line try_line_def)
  have e: "extract_text node (JObject [(''output'', JString ''x'')]) = Inr (JString ''x'')"
    by (simp add: extract_text_def)
  have s: "spec_line node (JObject [(''output'', JString ''x'')]) = JString ''x''"
    by (simp add: spec_line_def)
  show ?thesis using parse_output_line e s h by simp
qed

text \<open>
  C2, amended. A complete line that is not blank and fails to parse as JSON is
  forwarded unchanged and added to the accumulator. A line that is not blank and
  parses to a value other than \<^verbatim>\<open>null\<close> for which neither \<^verbatim>\<open>content\<close> (under
  \<^verbatim>\<open>type == "item"\<close>) nor \<^verbatim>\<open>message\<close>, \<^verbatim>\<open>text\<close> or \<^verbatim>\<open>response\<close> is truthy is dropped:
  nothing is forwarded and nothing is accumulated.
\<close>

theorem raw_line_forwarded:
  assumes "trim line \<noteq> []"
  shows "(JSON_parse P line = None \<longrightarrow>
            handle_line P line (out, full) = (out @ [line], full @ line))
       \<and> (\<forall>json. JSON_parse P line = Some json \<and> json \<noteq> JNull
            \<and> \<not> (get_prop json ''type'' = Some (JString ''item'')
                  \<and> truthy P (get_prop json ''content''))
            \<and> \<not> truthy P (get_prop json ''message'')
            \<and> \<not> truthy P (get_prop json ''text'')
            \<and> \<not> truthy P (get_prop json ''response'')
          \<longrightarrow> handle_line P line (out, full) = (out, full))"
proof (intro conjI allI impI)
  assume "JSON_parse P line = None"
  with assms show "handle_line P line (out, full) = (out @ [line], full @ line)"
    by (simp add: handle_line_def)
next
  fix json
  assume a: "JSON_parse P line = Some json \<and> json \<noteq> JNull
            \<and> \<not> (get_prop json ''type'' = Some (JString ''item'')
                  \<and> truthy P (get_prop json ''content''))
            \<and> \<not> truthy P (get_prop json ''message'')
            \<and> \<not> truthy P (get_prop json ''text'')
            \<and> \<not> truthy P (get_prop json ''response'')"
  then have "try_line P json (out, full) = Inr (out, full)"
    by (cases json) (auto simp: try_line_def)
  with a assms show "handle_line P line (out, full) = (out, full)"
    by (simp add: handle_line_def)
qed

theorem raw_line_forwarded_witness:
  \<open>handle_line node ''plain text'' ([], []) = ([''plain text''], ''plain text'')
   \<and> handle_line node ''{"type":"begin"}'' ([], []) = ([], [])\<close>
proof -
  have t1: "trim ''plain text'' \<noteq> []" by (simp add: trim_def js_space_def)
  have t2: \<open>trim ''{"type":"begin"}'' \<noteq> []\<close> by (simp add: trim_def js_space_def)
  from raw_line_forwarded [OF t1, of node "[]" "[]"] parse_plain_text
  have a: "handle_line node ''plain text'' ([], []) = ([''plain text''], ''plain text'')"
    by simp
  from raw_line_forwarded [OF t2, of node "[]" "[]"] parse_begin
  have b: \<open>handle_line node ''{"type":"begin"}'' ([], []) = ([], [])\<close>
    by simp
  from a b show ?thesis by simp
qed

text \<open>
  The claim as stated fails on a line for which extraction yields nothing, and on a
  blank line, which does not parse: neither is forwarded.
\<close>

theorem raw_line_forwarded_counterexample:
  \<open>JSON_parse node ''{"type":"begin"}'' = Some (JObject [(''type'', JString ''begin'')])
   \<and> try_line node (JObject [(''type'', JString ''begin'')]) ([], []) = Inr ([], [])
   \<and> fst (handle_line node ''{"type":"begin"}'' ([], [])) \<noteq> [''{"type":"begin"}'']
   \<and> JSON_parse node ''  '' = None
   \<and> fst (handle_line node ''  '' ([], [])) \<noteq> [''  '']\<close>
proof -
  have t: \<open>trim ''{"type":"begin"}'' \<noteq> []\<close> by (simp add: trim_def js_space_def)
  have y: "try_line node (JObject [(''type'', JString ''begin'')]) ([], []) = Inr ([], [])"
    by (simp add: try_line_def)
  have h: \<open>handle_line node ''{"type":"begin"}'' ([], []) = ([], [])\<close>
    using t by (simp add: handle_line_def parse_begin y)
  have b: "handle_line node ''  '' ([], []) = ([], [])"
    by (simp add: handle_line_def trim_def js_space_def)
  show ?thesis using parse_begin y h parse_blank b by simp
qed

text \<open>
  How the body is cut into chunks does not matter: the fragments written are those
  of the lines of the whole body, the last one included.
\<close>

lemma handle_lines_append:
  "handle_lines P (xs @ ys) st = handle_lines P ys (handle_lines P xs st)"
  by (induction xs arbitrary: st) auto

lemma stream_chunks_lines:
  assumes "CHR 0x0A \<notin> set buffer"
  shows "stream_chunks P chunks buffer st
    = (last (split_nl (buffer @ concat chunks)),
       handle_lines P (butlast (split_nl (buffer @ concat chunks))) st)"
  using assms
proof (induction chunks arbitrary: buffer st)
  case Nil
  then show ?case by (simp add: split_nl_no_nl)
next
  case (Cons chunk chunks)
  let ?lines = "split_nl (buffer @ chunk)"
  let ?rest = "split_nl (last ?lines @ concat chunks)"
  have ne: "?rest \<noteq> []" by (rule split_nl_nonempty)
  have eq: "split_nl (buffer @ chunk @ concat chunks) = butlast ?lines @ ?rest"
    using split_nl_append [of "buffer @ chunk" "concat chunks"] by simp
  have "stream_chunks P (chunk # chunks) buffer st
      = stream_chunks P chunks (last ?lines) (handle_lines P (butlast ?lines) st)"
    by (simp add: Let_def)
  also have "\<dots> = (last ?rest, handle_lines P (butlast ?rest) (handle_lines P (butlast ?lines) st))"
    by (rule Cons.IH) (rule last_split_nl_no_nl)
  also have "\<dots> = (last (split_nl (buffer @ concat (chunk # chunks))),
       handle_lines P (butlast (split_nl (buffer @ concat (chunk # chunks)))) st)"
    using ne by (simp add: eq butlast_append handle_lines_append)
  finally show ?case .
qed

lemma stream_branch_lines:
  "written (stream_branch P call chunks (r\<lparr>written := []\<rparr>))
    = fst (handle_lines P (split_nl (concat chunks)) ([], []))"
proof -
  let ?ls = "split_nl (concat chunks)"
  have ne: "?ls \<noteq> []" by (rule split_nl_nonempty)
  have s: "stream_chunks P chunks [] ([], [])
      = (last ?ls, handle_lines P (butlast ?ls) ([], []))"
    using stream_chunks_lines [of "[]" P chunks "([], [])"] by simp
  have "handle_lines P ?ls ([], [])
      = handle_line P (last ?ls) (handle_lines P (butlast ?ls) ([], []))"
    using handle_lines_append [of P "butlast ?ls" "[last ?ls]" "([], [])"] ne by simp
  then show ?thesis
    by (simp add: stream_branch_def s split: prod.splits)
qed

lemma handle_item_foo:
  \<open>handle_line node ''{"type":"item","content":"foo"}'' st = (fst st @ [''foo''], snd st @ ''foo'')\<close>
  using trim_item_foo by (simp add: handle_line_def parse_item_foo try_line_def emit_def)

lemma handle_item_bar:
  \<open>handle_line node ''{"type":"item","content":"bar"}'' st = (fst st @ [''bar''], snd st @ ''bar'')\<close>
  using trim_item_bar by (simp add: handle_line_def parse_item_bar try_line_def emit_def)

lemma handle_empty: "handle_line P [] st = st"
  by (simp add: handle_line_def trim_def)

lemma split_first_chunk:
  \<open>split_nl (''{"type":"item","content":"foo"}'' @ [CHR 0x0A] @ ''{"ty'')
   = [''{"type":"item","content":"foo"}'', ''{"ty'']\<close>
  by simp

lemma split_second_chunk:
  \<open>split_nl (''{"ty'' @ ''pe":"item","content":"bar"}'' @ [CHR 0x0A])
   = [''{"type":"item","content":"bar"}'', []]\<close>
  by simp

lemma two_chunks:
  \<open>stream_chunks node [''{"type":"item","content":"foo"}'' @ [CHR 0x0A] @ ''{"ty'',
       ''pe":"item","content":"bar"}'' @ [CHR 0x0A]] [] ([], [])
   = ([], ([''foo'', ''bar''], ''foobar''))\<close>
  using split_first_chunk split_second_chunk
  by (simp add: Let_def handle_item_foo handle_item_bar del: split_nl.simps)

text \<open>
  C4. The stream of the two chunks \<^verbatim>\<open>{"type":"item","content":"foo"}\n{"ty\<close> and
  \<^verbatim>\<open>pe":"item","content":"bar"}\n\<close>, with no JSON content type: the caller receives
  the fragments \<^verbatim>\<open>foo\<close> and \<^verbatim>\<open>bar\<close>, that is \<^verbatim>\<open>foobar\<close>, and \<^verbatim>\<open>foobar\<close> is logged.
\<close>

theorem split_stream_reassembled:
  \<open>written (api_chat node browser (Reply 200 None
      [''{"type":"item","content":"foo"}'' @ [CHR 0x0A] @ ''{"ty'',
       ''pe":"item","content":"bar"}'' @ [CHR 0x0A]])) = [''foo'', ''bar'']
   \<and> concat (written (api_chat node browser (Reply 200 None
      [''{"type":"item","content":"foo"}'' @ [CHR 0x0A] @ ''{"ty'',
       ''pe":"item","content":"bar"}'' @ [CHR 0x0A]]))) = ''foobar''
   \<and> map botResponse (saved (api_chat node browser (Reply 200 None
      [''{"type":"item","content":"foo"}'' @ [CHR 0x0A] @ ''{"ty'',
       ''pe":"item","content":"bar"}'' @ [CHR 0x0A]]))) = [''foobar'']\<close>
proof -
  have b: \<open>stream_branch node c
      [''{"type":"item","content":"foo"}'' @ [CHR 0x0A] @ ''{"ty'',
       ''pe":"item","content":"bar"}'' @ [CHR 0x0A]] (fresh\<lparr>fetched := f\<rparr>)
    = fresh\<lparr>fetched := f, contentType := Some ''text/plain; charset=utf-8'', chunked := True,
        written := [''foo'', ''bar''], ended := True,
        saved := [c\<lparr>botResponse := ''foobar''\<rparr>]\<rparr>\<close> for c :: "int save_call" and f
    using two_chunks by (simp add: stream_branch_def fresh_def handle_empty del: stream_chunks.simps)
  show ?thesis
    using browser_message ok_200 by (simp add: api_chat_def Let_def b [simplified])
qed

subsection \<open>The accumulator\<close>

lemma emit_sync:
  "emit c st = Inr st' \<Longrightarrow> snd st = concat (fst st) \<Longrightarrow> snd st' = concat (fst st')"
  by (auto simp: emit_def split: option.splits json.splits)

lemma try_line_sync:
  "try_line P json st = Inr st' \<Longrightarrow> snd st = concat (fst st) \<Longrightarrow> snd st' = concat (fst st')"
  by (cases json) (auto simp: try_line_def dest: emit_sync split: if_splits)

lemma handle_line_sync:
  assumes "snd st = concat (fst st)"
  shows "snd (handle_line P line st) = concat (fst (handle_line P line st))"
proof (cases "trim line = []")
  case True
  with assms show ?thesis by (simp add: handle_line_def)
next
  case False
  show ?thesis
  proof (cases "JSON_parse P line")
    case None
    with False assms show ?thesis by (simp add: handle_line_def)
  next
    case (Some json)
    show ?thesis
    proof (cases "try_line P json st")
      case (Inl e)
      with False Some assms show ?thesis by (simp add: handle_line_def)
    next
      case (Inr st')
      from try_line_sync [OF Inr assms] False Some Inr show ?thesis
        by (simp add: handle_line_def)
    qed
  qed
qed

lemma handle_lines_sync:
  "snd st = concat (fst st) \<Longrightarrow>
   snd (handle_lines P lines st) = concat (fst (handle_lines P lines st))"
  by (induction lines arbitrary: st) (auto simp: handle_line_sync)

lemma stream_chunks_sync:
  "snd st = concat (fst st) \<Longrightarrow>
   snd (snd (stream_chunks P chunks buffer st))
     = concat (fst (snd (stream_chunks P chunks buffer st)))"
  by (induction chunks arbitrary: buffer st) (auto simp: Let_def handle_lines_sync)

lemma stream_branch_sync:
  assumes "written r = []" and "saved r = []"
  shows "\<exists>c. saved (stream_branch P call chunks r) = [c]
      \<and> botResponse c = concat (written (stream_branch P call chunks r))"
proof -
  obtain buffer st where s: "stream_chunks P chunks [] ([], []) = (buffer, st)"
    by (cases "stream_chunks P chunks [] ([], [])") auto
  have "snd (snd (stream_chunks P chunks [] ([], [])))
      = concat (fst (snd (stream_chunks P chunks [] ([], []))))"
    by (rule stream_chunks_sync) simp
  with s have "snd st = concat (fst st)" by simp
  then have h: "snd (handle_line P buffer st) = concat (fst (handle_line P buffer st))"
    by (rule handle_line_sync)
  obtain out full where o: "handle_line P buffer st = (out, full)"
    by (cases "handle_line P buffer st") auto
  with h have "full = concat out" by simp
  with s o assms show ?thesis by (simp add: stream_branch_def)
qed

lemma json_branch_sync:
  assumes "written r = []" and "saved r = []"
  shows "(saved (json_branch P call body r) = [] \<and> written (json_branch P call body r) = []
          \<and> statusCode (json_branch P call body r) = 500)
       \<or> (\<exists>c. saved (json_branch P call body r) = [c]
          \<and> botResponse c = concat (written (json_branch P call body r)))"
  using assms
  by (auto simp: json_branch_def catch_error_def res_json_def
           split: option.splits sum.splits json.splits)

text \<open>
  C10. On a reply with a success status, in the whole-JSON branch and in the
  streaming branch alike: either nothing was written and nothing is logged (the
  handler answered 500), or \<^verbatim>\<open>saveHistory\<close> is called once and its bot response is
  the concatenation of the fragments written to the caller.
\<close>

theorem logged_equals_written:
  assumes "message req = Some (JString m)" and "m \<noteq> []" and "ok st"
  shows "(saved (api_chat P req (Reply st ct chunks)) = []
          \<and> written (api_chat P req (Reply st ct chunks)) = []
          \<and> statusCode (api_chat P req (Reply st ct chunks)) = 500)
       \<or> (\<exists>c. saved (api_chat P req (Reply st ct chunks)) = [c]
          \<and> botResponse c = concat (written (api_chat P req (Reply st ct chunks))))"
proof -
  let ?r = "fresh\<lparr>fetched := [JObject [(''message'', JString m),
     (''sessionId'', (case first_truthy P [sessionId req] of Some v \<Rightarrow> v
                       | None \<Rightarrow> JString (createSessionId P req))),
     (''timestamp'', JString (startTime req))]]\<rparr> :: 'a outcome"
  have w: "written ?r = []" and s: "saved ?r = []" by (simp_all add: fresh_def)
  show ?thesis
    using assms json_branch_sync [OF w s] stream_branch_sync [OF w s]
    by (simp add: api_chat_def Let_def)
qed

theorem logged_equals_written_witness:
  "map botResponse (saved (api_chat node browser (Reply 200 None [''hi''])))
     = [concat (written (api_chat node browser (Reply 200 None [''hi''])))]
   \<and> written (api_chat node browser (Reply 200 None [''hi''])) = [''hi'']"
proof -
  have ne: "''hello'' \<noteq> []" by simp
  have t: "trim ''hi'' \<noteq> []" by (simp add: trim_def js_space_def)
  have w: "written (api_chat node browser (Reply 200 None [''hi''])) = [''hi'']"
    using browser_message ok_200 t parse_hi
    by (simp add: api_chat_def Let_def stream_branch_def handle_line_def fresh_def)
  from logged_equals_written [OF browser_message ne ok_200, of node None "[''hi'']"] w
  show ?thesis by auto
qed

subsection \<open>Errors\<close>

text \<open>
  C5. When the upstream replies with a status outside 200..299, the caller is sent
  one plain-text fragment that contains the status code in decimal, the response is
  ended, \<^verbatim>\<open>saveHistory\<close> is called once with the user's message, the start time,
  the session id and the bot response \<^verbatim>\<open>Error: \<close> followed by the status code, and
  one request went upstream (no retry). On a log file that is absent, or that holds
  an array, that call writes the array with one entry added at its end: the object
  with \<^verbatim>\<open>timestamp\<close>, \<^verbatim>\<open>sessionId\<close>, \<^verbatim>\<open>userMessage\<close>, a \<^verbatim>\<open>botResponse\<close> that
  is \<^verbatim>\<open>Error: \<close> followed by the status code, and \<^verbatim>\<open>savedAt\<close>.
\<close>

theorem upstream_error_status:
  assumes "message req = Some (JString m)" and "m \<noteq> []" and "\<not> ok st"
  shows "\<exists>frag c.
      written (api_chat P req (Reply st ct chunks)) = [frag]
    \<and> str_includes frag (show_nat st)
    \<and> contentType (api_chat P req (Reply st ct chunks)) = Some ''text/plain; charset=utf-8''
    \<and> json_body (api_chat P req (Reply st ct chunks)) = None
    \<and> ended (api_chat P req (Reply st ct chunks))
    \<and> saved (api_chat P req (Reply st ct chunks)) = [c]
    \<and> userMessage c = m
    \<and> botResponse c = ''Error: '' @ show_nat st
    \<and> str_includes (botResponse c) (show_nat st)
    \<and> timestamp c = startTime req
    \<and> session c = (case sessionId req of
                       None \<Rightarrow> JString (createSessionId P req)
                     | Some v \<Rightarrow> if truthy P (Some v) then v
                                else JString (createSessionId P req))
    \<and> length (fetched (api_chat P req (Reply st ct chunks))) = 1
    \<and> saveHistory P savedAt None c
        = Wrote (JSON_stringify_2 P (JArray
            [JObject [(''timestamp'', JString (startTime req)),
                      (''sessionId'', session c),
                      (''userMessage'', JString m),
                      (''botResponse'', JString (''Error: '' @ show_nat st)),
                      (''savedAt'', JString savedAt)]]))
    \<and> (\<forall>data xs. data \<noteq> [] \<and> JSON_parse P data = Some (JArray xs) \<longrightarrow>
          saveHistory P savedAt (Some data) c
            = Wrote (JSON_stringify_2 P (JArray (xs @
                [JObject [(''timestamp'', JString (startTime req)),
                          (''sessionId'', session c),
                          (''userMessage'', JString m),
                          (''botResponse'', JString (''Error: '' @ show_nat st)),
                          (''savedAt'', JString savedAt)]]))))"
proof -
  let ?frag = "''Sorry, the webhook returned an error ('' @ show_nat st
                 @ ''). Please try again later.''"
  have a: "str_includes ?frag (show_nat st)"
    by (rule str_includes_append)
  have b: "str_includes (''Error: '' @ show_nat st) (show_nat st)"
    using str_includes_append [of "''Error: ''" "show_nat st" "[]"] by simp
  show ?thesis
    using assms a b
    by (auto simp: api_chat_def Let_def error_branch_def fresh_def saveHistory_def entry_def
             split: option.splits)
qed

theorem upstream_error_status_witness:
  "\<not> ok 503 \<and>
   written (api_chat node browser (Reply 503 None [''down'']))
     = [''Sorry, the webhook returned an error (503). Please try again later.''] \<and>
   map botResponse (saved (api_chat node browser (Reply 503 None [''down''])))
     = [''Error: 503''] \<and>
   map (saveHistory node ''now'' (Some ''[]''))
       (saved (api_chat node browser (Reply 503 None [''down''])))
     = [Wrote (node_pretty 0 (JArray
          [JObject [(''timestamp'', JString ''2024-01-01T00:00:00.000Z''),
                    (''sessionId'', JString ''s1''),
                    (''userMessage'', JString ''hello''),
                    (''botResponse'', JString ''Error: 503''),
                    (''savedAt'', JString ''now'')]]))]"
proof -
  have h2: "''hello'' \<noteq> []" by simp
  have h3: "\<not> ok 503" by (simp add: ok_def)
  have h4: "''[]'' \<noteq> []" by simp
  have s: "show_nat 503 = ''503''" by code_simp
  have st: "startTime browser = ''2024-01-01T00:00:00.000Z''" by (simp add: browser_def)
  have si: "sessionId browser = Some (JString ''s1'')" by (simp add: browser_def)
  from upstream_error_status [OF browser_message h2 h3, of node None "[''down'']" "''now''"]
  obtain frag c where
    w: "written (api_chat node browser (Reply 503 None [''down''])) = [frag]" and
    fr: "str_includes frag (show_nat 503)" and
    sv: "saved (api_chat node browser (Reply 503 None [''down''])) = [c]" and
    bc: "botResponse c = ''Error: '' @ show_nat 503" and
    sc: "session c = (case sessionId browser of
                        None \<Rightarrow> JString (createSessionId node browser)
                      | Some v \<Rightarrow> if truthy node (Some v) then v
                                 else JString (createSessionId node browser))" and
    f: "\<forall>data xs. data \<noteq> [] \<and> JSON_parse node data = Some (JArray xs) \<longrightarrow>
          saveHistory node ''now'' (Some data) c
            = Wrote (JSON_stringify_2 node (JArray (xs @
                [JObject [(''timestamp'', JString (startTime browser)),
                          (''sessionId'', session c),
                          (''userMessage'', JString ''hello''),
                          (''botResponse'', JString (''Error: '' @ show_nat 503)),
                          (''savedAt'', JString ''now'')]])))"
    by blast
  from f h4 parse_empty_array
  have "saveHistory node ''now'' (Some ''[]'') c
      = Wrote (JSON_stringify_2 node (JArray ([] @
                [JObject [(''timestamp'', JString (startTime browser)),
                          (''sessionId'', session c),
                          (''userMessage'', JString ''hello''),
                          (''botResponse'', JString (''Error: '' @ show_nat 503)),
                          (''savedAt'', JString ''now'')]])))"
    by blast
  then have g: "saveHistory node ''now'' (Some ''[]'') c
      = Wrote (node_pretty 0 (JArray
          [JObject [(''timestamp'', JString ''2024-01-01T00:00:00.000Z''),
                    (''sessionId'', JString ''s1''),
                    (''userMessage'', JString ''hello''),
                    (''botResponse'', JString ''Error: 503''),
                    (''savedAt'', JString ''now'')]]))"
    using sc s st si by (simp add: node_def)
  have x: "written (api_chat node browser (Reply 503 None [''down'']))
     = [''Sorry, the webhook returned an error (503). Please try again later.'']"
    using browser_message h3 s
    by (simp add: api_chat_def Let_def error_branch_def fresh_def)
  show ?thesis using h3 x sv g bc s by simp
qed

text \<open>
  C6. When \<^verbatim>\<open>fetch\<close> throws, the caller gets status 500 with a JSON payload whose
  \<^verbatim>\<open>details\<close> is the message of the failure, nothing is written as text, and
  \<^verbatim>\<open>saveHistory\<close> is not called.
\<close>

theorem fetch_failure:
  assumes "message req = Some (JString m)" and "m \<noteq> []"
  shows "statusCode (api_chat P req (FetchThrows d)) = 500
    \<and> json_body (api_chat P req (FetchThrows d))
        = Some (JObject [(''error'', JString ''Internal Server Error''), (''details'', JString d)])
    \<and> ended (api_chat P req (FetchThrows d))
    \<and> written (api_chat P req (FetchThrows d)) = []
    \<and> saved (api_chat P req (FetchThrows d)) = []
    \<and> length (fetched (api_chat P req (FetchThrows d))) = 1"
  using assms
  by (simp add: api_chat_def Let_def catch_error_def res_json_def message_of_def fresh_def)

theorem fetch_failure_witness:
  "statusCode (api_chat node browser (FetchThrows ''fetch failed'')) = 500
    \<and> json_body (api_chat node browser (FetchThrows ''fetch failed''))
        = Some (JObject [(''error'', JString ''Internal Server Error''),
                         (''details'', JString ''fetch failed'')])
    \<and> saved (api_chat node browser (FetchThrows ''fetch failed'')) = []"
proof -
  have h1: "message browser = Some (JString ''hello'')" by (simp add: browser_def)
  have h2: "''hello'' \<noteq> []" by simp
  from fetch_failure [OF h1 h2, of node "''fetch failed''"] show ?thesis by simp
qed

text \<open>
  C8. A request whose body has no \<^verbatim>\<open>message\<close>, or an empty one, is answered with
  status 400 and a JSON error; nothing is posted upstream and \<^verbatim>\<open>saveHistory\<close> is
  not called.
\<close>

theorem missing_message:
  assumes "message req = None \<or> message req = Some (JString [])"
  shows "statusCode (api_chat P req up) = 400
    \<and> json_body (api_chat P req up) = Some (JObject [(''error'', JString ''Message is required'')])
    \<and> ended (api_chat P req up)
    \<and> written (api_chat P req up) = []
    \<and> fetched (api_chat P req up) = []
    \<and> saved (api_chat P req up) = []"
  using assms by (auto simp: api_chat_def res_json_def fresh_def)

theorem missing_message_witness:
  "statusCode (api_chat node (browser\<lparr>message := None\<rparr>) (Reply 200 None [''hi''])) = 400
    \<and> fetched (api_chat node (browser\<lparr>message := None\<rparr>) (Reply 200 None [''hi''])) = []
    \<and> saved (api_chat node (browser\<lparr>message := None\<rparr>) (Reply 200 None [''hi''])) = []"
proof -
  have h: "message (browser\<lparr>message := None\<rparr>) = None
      \<or> message (browser\<lparr>message := None\<rparr>) = Some (JString [])" by simp
  from missing_message [OF h, of node "Reply 200 None [''hi'']"] show ?thesis by simp
qed

subsection \<open>The history log\<close>

text \<open>
  C7. When the history file cannot be read, or what it holds does not parse as JSON,
  the append goes through and what is handed to \<^verbatim>\<open>fs.writeFile\<close> is the serialised
  array whose only element is the new record: the object with the \<^verbatim>\<open>timestamp\<close>,
  \<^verbatim>\<open>sessionId\<close>, \<^verbatim>\<open>userMessage\<close> and \<^verbatim>\<open>botResponse\<close> of the call and the time
  \<^verbatim>\<open>savedAt\<close>. Nothing of the prior content is kept.
\<close>

theorem append_to_unreadable:
  assumes "file = None \<or> (\<exists>data. file = Some data \<and> JSON_parse P data = None)"
  shows "saveHistory P savedAt file call
    = Wrote (JSON_stringify_2 P (JArray
        [JObject [(''timestamp'', JString (timestamp call)),
                  (''sessionId'', session call),
                  (''userMessage'', JString (userMessage call)),
                  (''botResponse'', JString (botResponse call)),
                  (''savedAt'', JString savedAt)]]))"
  using assms by (auto simp: saveHistory_def entry_def)

theorem append_to_unreadable_witness:
  "saveHistory node ''now'' (Some ''{oops'') exchange
     = Wrote (node_pretty 0 (JArray
         [JObject [(''timestamp'', JString ''2024-01-01T00:00:00.000Z''),
                   (''sessionId'', JString ''s1''),
                   (''userMessage'', JString ''hello''),
                   (''botResponse'', JString ''hi''),
                   (''savedAt'', JString ''now'')]]))"
proof -
  have p: "JSON_parse node ''{oops'' = None" by code_simp
  then have h: "Some ''{oops'' = None
      \<or> (\<exists>data. Some ''{oops'' = Some data \<and> JSON_parse node data = None)"
    by blast
  from append_to_unreadable [OF h, of "''now''" exchange] show ?thesis
    by (simp add: node_def exchange_def)
qed

text \<open>
  C9. \<^verbatim>\<open>saveHistory\<close> on a file that holds valid JSON which is not an array: the
  parse succeeds, \<^verbatim>\<open>history.push\<close> throws, and nothing is handed to
  \<^verbatim>\<open>fs.writeFile\<close>. Shown on the contents \<^verbatim>\<open>{}\<close> and \<^verbatim>\<open>5\<close>.
\<close>

theorem append_to_non_array:
  "saveHistory node savedAt (Some ''{}'') call = Threw TypeError
   \<and> saveHistory node savedAt (Some ''5'') call = Threw TypeError"
proof -
  have a: "JSON_parse node ''{}'' = Some (JObject [])" by code_simp
  have b: "JSON_parse node ''5'' = Some (JNumber 5)" by code_simp
  show ?thesis using a b by (simp add: saveHistory_def)
qed

end
